theory Spec2Isabelle
  imports Main "HOL-Library.Sublist"
begin

section \<open>Values of the script\<close>

text \<open>
  The program is one Streamlit script, \<^verbatim>\<open>streamlit_app.py\<close>, executed from top to bottom on
  every user action. A Python \<^verbatim>\<open>str\<close> is a \<^typ>\<open>string\<close>; a character outside ASCII is
  held as the bytes of its UTF-8 encoding, as they stand in the source file.
\<close>

definition newline :: string where
  "newline = [CHR 0x0A]"

definition page_facing_up :: string where
  "page_facing_up = [CHR 0xF0, CHR 0x9F, CHR 0x93, CHR 0x84]"

definition rotating_light :: string where
  "rotating_light = [CHR 0xF0, CHR 0x9F, CHR 0x9A, CHR 0xA8]"

definition old_key :: string where
  "old_key = [CHR 0xF0, CHR 0x9F, CHR 0x97, CHR 0x9D, CHR 0xEF, CHR 0xB8, CHR 0x8F]"

text \<open>
  An exception is an instance of Python's \<^verbatim>\<open>Exception\<close>, with the text \<^verbatim>\<open>str(e)\<close> gives.
  The two classes the script names in an \<^verbatim>\<open>except\<close> clause are told apart from all others.
\<close>

datatype exn = KeyError string | FileNotFoundError string | OtherException string

fun str :: "exn \<Rightarrow> string" where
  "str (KeyError t) = t"
| "str (FileNotFoundError t) = t"
| "str (OtherException t) = t"

fun missing_secret :: "exn \<Rightarrow> bool" where
  "missing_secret (KeyError t) = True"
| "missing_secret (FileNotFoundError t) = True"
| "missing_secret (OtherException t) = False"

record message =
  role :: string
  content :: string

text \<open>
  The keyword arguments of \<^verbatim>\<open>client.chat.completions.create\<close>, with the key the client
  was built from.
\<close>

record request =
  api_key :: string
  model :: string
  request_messages :: "message list"
  stream :: bool

text \<open>
  What the remote service answers to an opened request: the fragments it delivers, in order,
  and then either the end of the stream or an exception.
\<close>

datatype completion = Completion (fragments: "string list") (failure: "exn option")

text \<open>
  Everything a run does to the page or to the outside, in the order it does it. Each
  constructor is one call of the source with its arguments.
\<close>

datatype event =
    Title string
  | Write string
  | Error string string
  | Stop
  | Info string string
  | OpenAI string
  | File_uploader string "string list"
  | Text_area string string bool nat
  | Spinner_enter string
  | Create request
  | Shown string
  | Spinner_exit

datatype outcome = Finished | Halted | Unhandled exn

text \<open>
  What one run finds outside the script: the result of \<^verbatim>\<open>st.secrets["API_KEY"]\<close>, the value
  of the upload widget (\<open>None\<close> without a file, otherwise what \<^verbatim>\<open>read().decode()\<close> on the
  file gives), the text of the question widget, and the remote service.
\<close>

record env =
  secrets :: "exn + string"
  file_uploader :: "(exn + string) option"
  text_area :: string
  chat_completions_create :: "request \<Rightarrow> exn + completion"

section \<open>Prompt builder\<close>

definition messages :: "string \<Rightarrow> string \<Rightarrow> message list" where
  "messages document question =
     [\<lparr>role = ''user'',
       content =
         (''You are an expert at answering questions based on a provided document.'' @ newline @ newline)
         @ (''Here is the document:'' @ newline @ newline @ ''---'' @ newline @ newline
            @ document @ newline @ newline @ ''---'' @ newline @ newline)
         @ (''Based on the document, please answer the following question: '' @ question)\<rparr>]"

text \<open>The parts of the prompt that do not depend on the inputs.\<close>

definition instruction :: string where
  "instruction = ''You are an expert at answering questions based on a provided document.''"

definition delimiter1 :: string where
  "delimiter1 = newline @ newline @ ''Here is the document:'' @ newline @ newline @ ''---''
     @ newline @ newline"

definition delimiter2 :: string where
  "delimiter2 = newline @ newline @ ''---'' @ newline @ newline
     @ ''Based on the document, please answer the following question: ''"

section \<open>Streaming display\<close>

text \<open>
  Modelled from the spec: \<^verbatim>\<open>st.write_stream\<close> is an operation of the rendering library, so its
  body is not part of the repository. Section 4.3: ``As each partial fragment arrives, append
  it to the visible output immediately (no buffering of the full answer before display)'',
  ``in arrival order, terminating when the remote stream closes normally''. Each fragment
  extends the text shown so far and the display is updated with the result; an exception
  of the stream leaves the loop with what has been shown. Decorations the library may add
  while a stream is open are not part of the model.
\<close>

fun write_stream_from :: "string \<Rightarrow> string list \<Rightarrow> event list" where
  "write_stream_from shown [] = []"
| "write_stream_from shown (f # fs) = Shown (shown @ f) # write_stream_from (shown @ f) fs"

definition write_stream :: "completion \<Rightarrow> event list \<times> exn option" where
  "write_stream s = (write_stream_from [] (fragments s), failure s)"

section \<open>The script\<close>

text \<open>
  A block of statements gives the events it performed and the exception that ended it, if
  any. \<^verbatim>\<open>with st.spinner(...)\<close> shows the spinner on entry and removes it on exit, also when
  the block is left by an exception.
\<close>

definition spinner :: "string \<Rightarrow> event list \<times> exn option \<Rightarrow> event list \<times> exn option" where
  "spinner text body = (Spinner_enter text # fst body @ [Spinner_exit], snd body)"

definition create_and_show :: "env \<Rightarrow> request \<Rightarrow> event list \<times> exn option" where
  "create_and_show e req =
     (case chat_completions_create e req of
        Inl x \<Rightarrow> ([Create req], Some x)
      | Inr s \<Rightarrow> (Create req # fst (write_stream s), snd (write_stream s)))"

text \<open>The request the script opens for a key, a document and a question.\<close>

definition create_request :: "string \<Rightarrow> string \<Rightarrow> string \<Rightarrow> request" where
  "create_request openai_api_key document question =
     \<lparr>api_key = openai_api_key, model = ''gpt-3.5-turbo'',
      request_messages = messages document question, stream = True\<rparr>"

definition try_body :: "env \<Rightarrow> string \<Rightarrow> exn + string \<Rightarrow> string \<Rightarrow> event list \<times> exn option" where
  "try_body e openai_api_key uploaded_file question =
     (case uploaded_file of
        Inl x \<Rightarrow> ([], Some x)
      | Inr document \<Rightarrow>
          spinner ''Generating answer...''
            (create_and_show e (create_request openai_api_key document question)))"

definition except_Exception :: "event list \<times> exn option \<Rightarrow> event list" where
  "except_Exception r =
     (case snd r of
        None \<Rightarrow> fst r
      | Some x \<Rightarrow> fst r @ [Error (''An error occurred: '' @ str x) rotating_light])"

definition header :: "event list" where
  "header =
     [Title (page_facing_up @ '' Document Question Answering''),
      Write (''Upload a document (.txt or .md) and ask a question. The app will use an AI model to find the answer within the document.''
             @ '' You'' @ [CHR 0x27] @ ''ll need an OpenAI API key to use this app. You can get one from the [OpenAI Platform](https://platform.openai.com/account/api-keys).'')]"

definition main_logic :: "env \<Rightarrow> string \<Rightarrow> event list" where
  "main_logic e openai_api_key =
     (if openai_api_key = [] then
        [Info ''Please add your OpenAI API key to your secrets file to continue.'' old_key]
      else
        [OpenAI openai_api_key,
         File_uploader ''Upload your document'' [''txt'', ''md''],
         Text_area ''Ask a question about the document''
           ''e.g., Can you give me a short summary of the document?''
           (file_uploader e = None) 100]
        @ (case file_uploader e of
             None \<Rightarrow> []
           | Some uploaded_file \<Rightarrow>
               if text_area e = [] then []
               else except_Exception (try_body e openai_api_key uploaded_file (text_area e))))"

text \<open>
  The upload widget gives \<^verbatim>\<open>None\<close> or a file object, and a file object is true whatever
  it holds: \<^verbatim>\<open>uploaded_file and question\<close> asks for a file and a non-empty question, and
  \<^verbatim>\<open>not uploaded_file\<close> for no file. \<^verbatim>\<open>st.stop()\<close> ends the run where it stands. An exception
  of the secrets lookup that the \<^verbatim>\<open>except\<close> clause does not name leaves the script.
\<close>

definition script :: "env \<Rightarrow> event list \<times> outcome" where
  "script e =
     (case secrets e of
        Inl x \<Rightarrow>
          if missing_secret x then
            (header @ [Error ''ERROR: OpenAI API key not found. Please add it to your secrets file.''
                         rotating_light,
                       Stop], Halted)
          else (header, Unhandled x)
      | Inr openai_api_key \<Rightarrow> (header @ main_logic e openai_api_key, Finished))"

section \<open>Reading a run\<close>

text \<open>The requests opened, the texts shown by the streaming display, the error banners
  and the state of the question input, each in the order of the run.\<close>

fun create_of :: "event \<Rightarrow> request list" where
  "create_of (Create r) = [r]"
| "create_of _ = []"

definition creates :: "event list \<Rightarrow> request list" where
  "creates es = concat (map create_of es)"

fun shown_of :: "event \<Rightarrow> string list" where
  "shown_of (Shown t) = [t]"
| "shown_of _ = []"

definition shown :: "event list \<Rightarrow> string list" where
  "shown es = concat (map shown_of es)"

text \<open>The answer on the page: the text of the last update, nothing before the first.\<close>

definition rendered :: "event list \<Rightarrow> string" where
  "rendered es = last ([] # shown es)"

fun error_of :: "event \<Rightarrow> string list" where
  "error_of (Error t i) = [t]"
| "error_of _ = []"

definition errors :: "event list \<Rightarrow> string list" where
  "errors es = concat (map error_of es)"

fun disabled_of :: "event \<Rightarrow> bool list" where
  "disabled_of (Text_area l p d h) = [d]"
| "disabled_of _ = []"

definition question_disabled :: "event list \<Rightarrow> bool list" where
  "question_disabled es = concat (map disabled_of es)"

text \<open>The elements past the credential check: the client, the two inputs, the remote call
  and its display.\<close>

fun functionality :: "event \<Rightarrow> bool" where
  "functionality (OpenAI k) = True"
| "functionality (File_uploader l ts) = True"
| "functionality (Text_area l p d h) = True"
| "functionality (Spinner_enter t) = True"
| "functionality (Create r) = True"
| "functionality (Shown t) = True"
| "functionality _ = False"

text \<open>The script is run again from the top on every user action, and nothing of one run is
  kept for the next: a session is the runs one after the other.\<close>

definition session :: "env list \<Rightarrow> event list" where
  "session es = concat (map (\<lambda>e. fst (script e)) es)"

section \<open>Example runs\<close>

definition sky_answer :: "request \<Rightarrow> exn + completion" where
  "sky_answer r = Inr (Completion [''The '', ''sky '', ''is blue.''] None)"

definition sky_broken :: "request \<Rightarrow> exn + completion" where
  "sky_broken r = Inr (Completion [''The '', ''sky ''] (Some (OtherException ''Connection error.'')))"

definition sky_refused :: "request \<Rightarrow> exn + completion" where
  "sky_refused r = Inl (OtherException ''Incorrect API key provided'')"

definition sky_env :: env where
  "sky_env = \<lparr>secrets = Inr ''sk-test'', file_uploader = Some (Inr ''The sky is blue.''),
     text_area = ''What color is the sky?'', chat_completions_create = sky_answer\<rparr>"

definition broken_stream_env :: env where
  "broken_stream_env = sky_env\<lparr>chat_completions_create := sky_broken\<rparr>"

definition refused_env :: env where
  "refused_env = sky_env\<lparr>chat_completions_create := sky_refused\<rparr>"

definition undecodable_env :: env where
  "undecodable_env = sky_env\<lparr>file_uploader := Some (Inl (OtherException ''invalid start byte''))\<rparr>"

definition empty_document_env :: env where
  "empty_document_env = sky_env\<lparr>file_uploader := Some (Inr [])\<rparr>"

definition no_file_env :: env where
  "no_file_env = sky_env\<lparr>file_uploader := None, text_area := []\<rparr>"

definition no_secret_env :: env where
  "no_secret_env = sky_env\<lparr>secrets := Inl (KeyError ''API_KEY'')\<rparr>"

definition empty_secret_env :: env where
  "empty_secret_env = sky_env\<lparr>secrets := Inr []\<rparr>"

lemmas example_envs = sky_env_def broken_stream_env_def refused_env_def undecodable_env_def
  empty_document_env_def no_file_env_def no_secret_env_def empty_secret_env_def
  sky_answer_def sky_broken_def sky_refused_def

section \<open>Reading a concatenated run\<close>

lemmas script_defs = script_def main_logic_def except_Exception_def try_body_def spinner_def
  create_and_show_def write_stream_def

lemma creates_append: "creates (xs @ ys) = creates xs @ creates ys"
  by (simp add: creates_def)

lemma shown_append: "shown (xs @ ys) = shown xs @ shown ys"
  by (simp add: shown_def)

lemma errors_append: "errors (xs @ ys) = errors xs @ errors ys"
  by (simp add: errors_def)

lemma question_disabled_append:
  "question_disabled (xs @ ys) = question_disabled xs @ question_disabled ys"
  by (simp add: question_disabled_def)

lemma creates_Cons: "creates (x # xs) = create_of x @ creates xs"
  by (simp add: creates_def)

lemma shown_Cons: "shown (x # xs) = shown_of x @ shown xs"
  by (simp add: shown_def)

lemma errors_Cons: "errors (x # xs) = error_of x @ errors xs"
  by (simp add: errors_def)

lemma question_disabled_Cons:
  "question_disabled (x # xs) = disabled_of x @ question_disabled xs"
  by (simp add: question_disabled_def)

lemma creates_Nil: "creates [] = []"
  by (simp add: creates_def)

lemma shown_Nil: "shown [] = []"
  by (simp add: shown_def)

lemma errors_Nil: "errors [] = []"
  by (simp add: errors_def)

lemma question_disabled_Nil: "question_disabled [] = []"
  by (simp add: question_disabled_def)

lemmas reading = creates_append shown_append errors_append question_disabled_append
  creates_Cons shown_Cons errors_Cons question_disabled_Cons
  creates_Nil shown_Nil errors_Nil question_disabled_Nil

text \<open>The header opens no request, shows no answer, raises no banner and has no input.\<close>

lemma creates_header: "creates header = []"
  by (simp add: creates_def header_def)

lemma shown_header: "shown header = []"
  by (simp add: shown_def header_def)

lemma errors_header: "errors header = []"
  by (simp add: errors_def header_def)

lemma question_disabled_header: "question_disabled header = []"
  by (simp add: question_disabled_def header_def)

lemma functionality_header: "ev \<in> set header \<Longrightarrow> \<not> functionality ev"
  by (auto simp add: header_def)

lemma Stop_header: "Stop \<notin> set header"
  by (simp add: header_def)

lemma OpenAI_header: "OpenAI k \<notin> set header"
  by (simp add: header_def)

text \<open>The streaming display only shows text.\<close>

lemma creates_write_stream_from: "creates (write_stream_from acc fs) = []"
  by (induction fs arbitrary: acc) (simp_all add: creates_def)

lemma errors_write_stream_from: "errors (write_stream_from acc fs) = []"
  by (induction fs arbitrary: acc) (simp_all add: errors_def)

lemma question_disabled_write_stream_from: "question_disabled (write_stream_from acc fs) = []"
  by (induction fs arbitrary: acc) (simp_all add: question_disabled_def)

lemmas silent = creates_header shown_header errors_header question_disabled_header
  creates_write_stream_from errors_write_stream_from question_disabled_write_stream_from

text \<open>After the \<open>n\<close>-th fragment the display holds the first \<open>n\<close> fragments, in order.\<close>

lemma shown_write_stream_from:
  "shown (write_stream_from acc fs) = map (\<lambda>n. acc @ concat (take n fs)) [1..<Suc (length fs)]"
proof (induction fs arbitrary: acc)
  case Nil
  show ?case by (simp add: shown_def)
next
  case (Cons f fs)
  have "shown (write_stream_from acc (f # fs)) = (acc @ f) # shown (write_stream_from (acc @ f) fs)"
    by (simp add: shown_def)
  also have "\<dots> = (acc @ f) # map (\<lambda>n. (acc @ f) @ concat (take n fs)) [1..<Suc (length fs)]"
    by (simp only: Cons.IH)
  also have "\<dots> = map (\<lambda>n. acc @ concat (take n (f # fs))) [1..<Suc (length (f # fs))]"
    by (simp add: upt_conv_Cons map_Suc_upt [symmetric] del: upt_Suc)
  finally show ?case .
qed

lemma prefix_concat_take: "prefix (concat (take n fs)) (concat fs)"
proof -
  have "concat fs = concat (take n fs) @ concat (drop n fs)"
    by (simp flip: concat_append)
  then show ?thesis by (metis prefixI)
qed

lemma last_shown_write_stream_from:
  "last (acc # shown (write_stream_from acc fs)) = acc @ concat fs"
  by (induction fs arbitrary: acc) (simp_all add: shown_def)

section \<open>The claims\<close>

text \<open>
  Claim C1. For every document \<open>D\<close> and question \<open>Q\<close> (non-empty or not) the prompt builder
  gives exactly one message, of role \<open>user\<close>, whose content is the instruction sentence, a
  delimiter, \<open>D\<close> as it is, a second delimiter and \<open>Q\<close> as it is, in this order: nothing of
  \<open>D\<close> or \<open>Q\<close> is escaped or cut.
\<close>

theorem messages_concatenation:
  "messages D Q = [\<lparr>role = ''user'', content = instruction @ delimiter1 @ D @ delimiter2 @ Q\<rparr>]"
  by (simp add: messages_def instruction_def delimiter1_def delimiter2_def)

text \<open>The example of section 8.\<close>

theorem messages_concatenation_witness:
  "messages ''The sky is blue.'' ''What color is the sky?'' =
     [\<lparr>role = ''user'',
       content = instruction @ delimiter1 @ ''The sky is blue.'' @ delimiter2
                 @ ''What color is the sky?''\<rparr>]"
  by (rule messages_concatenation)

text \<open>
  Claim C2, as the script has it. A run opens a request exactly when a non-empty key is
  loaded, a file is uploaded whose bytes decode, and the question is not empty. The decoded
  document itself may be empty. Without a file, or with an empty question, no request is
  opened.
\<close>

theorem request_only_with_file_and_question:
  "creates (fst (script e)) \<noteq> [] \<longleftrightarrow>
     (\<exists>key. secrets e = Inr key \<and> key \<noteq> [])
     \<and> (\<exists>document. file_uploader e = Some (Inr document))
     \<and> text_area e \<noteq> []"
  by (auto simp add: script_defs reading silent split: sum.splits option.splits)

theorem request_only_with_file_and_question_witness:
  "creates (fst (script sky_env)) \<noteq> [] \<and> creates (fst (script no_file_env)) = []"
  using request_only_with_file_and_question [of sky_env]
    request_only_with_file_and_question [of no_file_env]
  by (simp add: example_envs)

text \<open>
  Claim C2 as stated fails: an uploaded file of no bytes decodes to the empty document, and
  with a question the request is opened all the same.
\<close>

theorem request_with_empty_document_counterexample:
  "file_uploader empty_document_env = Some (Inr [])
   \<and> text_area empty_document_env = ''What color is the sky?''
   \<and> creates (fst (script empty_document_env))
       = [create_request ''sk-test'' [] ''What color is the sky?'']"
  by (simp add: example_envs script_defs reading silent)

text \<open>
  Claim C3. With a key, a file and a question, an exception raised by the decoding of the
  file, by the call that opens the request, or by the stream after some fragments, is caught:
  the run finishes, and it shows exactly one error banner, last on the page, whose text ends
  with the text of the exception. (Assembling the prompt joins strings and raises nothing.)
\<close>

theorem exception_becomes_one_error:
  assumes "secrets e = Inr key" and "key \<noteq> []"
    and "file_uploader e = Some f" and "text_area e \<noteq> []"
    and "f = Inl x
       \<or> (\<exists>D. f = Inr D
             \<and> chat_completions_create e (create_request key D (text_area e)) = Inl x)
       \<or> (\<exists>D fs. f = Inr D
             \<and> chat_completions_create e (create_request key D (text_area e))
                 = Inr (Completion fs (Some x)))"
  shows "snd (script e) = Finished
     \<and> errors (fst (script e)) = [''An error occurred: '' @ str x]
     \<and> last (fst (script e)) = Error (''An error occurred: '' @ str x) rotating_light"
  using assms by (auto simp add: script_defs reading silent)

theorem exception_becomes_one_error_witness:
  "snd (script refused_env) = Finished
   \<and> errors (fst (script refused_env)) = [''An error occurred: Incorrect API key provided'']
   \<and> last (fst (script refused_env))
       = Error ''An error occurred: Incorrect API key provided'' rotating_light"
proof -
  have k: "secrets refused_env = Inr ''sk-test''" "''sk-test'' \<noteq> []"
    by (simp_all add: example_envs)
  have f: "file_uploader refused_env = Some (Inr ''The sky is blue.'')"
    "text_area refused_env \<noteq> []"
    by (simp_all add: example_envs)
  have r: "Inr ''The sky is blue.'' = Inl (OtherException ''Incorrect API key provided'')
       \<or> (\<exists>D. Inr ''The sky is blue.'' = Inr D
             \<and> chat_completions_create refused_env
                 (create_request ''sk-test'' D (text_area refused_env))
                 = Inl (OtherException ''Incorrect API key provided''))
       \<or> (\<exists>D fs. Inr ''The sky is blue.'' = Inr D
             \<and> chat_completions_create refused_env
                 (create_request ''sk-test'' D (text_area refused_env))
                 = Inr (Completion fs (Some (OtherException ''Incorrect API key provided''))))"
    by (simp add: example_envs)
  from exception_becomes_one_error [OF k f r] show ?thesis by simp
qed

text \<open>
  Claim C4. When the lookup of the secret raises \<open>KeyError\<close> (no such key) or
  \<open>FileNotFoundError\<close> (no store), the run shows the header, then the configuration error,
  and stops: no request is opened and no client, upload control, question input or answer
  display exists in that run.
\<close>

theorem missing_secret_halts:
  assumes "secrets e = Inl x" and "missing_secret x"
  shows "script e =
           (header @ [Error ''ERROR: OpenAI API key not found. Please add it to your secrets file.''
                        rotating_light, Stop], Halted)
     \<and> creates (fst (script e)) = []
     \<and> (\<forall>ev \<in> set (fst (script e)). \<not> functionality ev)"
  using assms by (auto simp add: script_def reading silent functionality_header)

theorem missing_secret_halts_witness:
  "snd (script no_secret_env) = Halted \<and> creates (fst (script no_secret_env)) = []
   \<and> last (fst (script no_secret_env)) = Stop"
proof -
  have s: "secrets no_secret_env = Inl (KeyError ''API_KEY'')"
    by (simp add: example_envs)
  have m: "missing_secret (KeyError ''API_KEY'')"
    by simp
  from missing_secret_halts [OF s m] show ?thesis by (simp add: reading silent)
qed

text \<open>
  Claim C5. Modelled from the spec (the streaming display). With a key, a file that decodes
  and a question, when the service delivers the fragments \<open>fs\<close> and closes the stream: the
  display is updated once per fragment, the \<open>n\<close>-th update showing the first \<open>n\<close> fragments
  joined in arrival order; what is rendered at the end is all fragments joined; every text
  shown on the way is a prefix of it; and no error banner is shown.
\<close>

theorem stream_rendered_in_order:
  assumes "secrets e = Inr key" and "key \<noteq> []"
    and "file_uploader e = Some (Inr D)" and "text_area e \<noteq> []"
    and "chat_completions_create e (create_request key D (text_area e))
           = Inr (Completion fs None)"
  shows "shown (fst (script e)) = map (\<lambda>n. concat (take n fs)) [1..<Suc (length fs)]
     \<and> rendered (fst (script e)) = concat fs
     \<and> (\<forall>t \<in> set (shown (fst (script e))). prefix t (concat fs))
     \<and> errors (fst (script e)) = []"
proof -
  have s: "shown (fst (script e)) = shown (write_stream_from [] fs)"
    using assms by (simp add: script_defs reading silent)
  have r: "rendered (fst (script e)) = concat fs"
    unfolding rendered_def s using last_shown_write_stream_from [of "[]" fs] by simp
  have er: "errors (fst (script e)) = []"
    using assms by (simp add: script_defs reading silent)
  show ?thesis
    using r er by (auto simp add: s shown_write_stream_from prefix_concat_take simp del: upt_Suc)
qed

theorem stream_rendered_in_order_witness:
  "shown (fst (script sky_env)) = [''The '', ''The sky '', ''The sky is blue.'']
   \<and> rendered (fst (script sky_env)) = ''The sky is blue.''
   \<and> errors (fst (script sky_env)) = []"
proof -
  have k: "secrets sky_env = Inr ''sk-test''" "''sk-test'' \<noteq> []"
    by (simp_all add: example_envs)
  have f: "file_uploader sky_env = Some (Inr ''The sky is blue.'')" "text_area sky_env \<noteq> []"
    by (simp_all add: example_envs)
  have r: "chat_completions_create sky_env
             (create_request ''sk-test'' ''The sky is blue.'' (text_area sky_env))
           = Inr (Completion [''The '', ''sky '', ''is blue.''] None)"
    by (simp add: example_envs)
  from stream_rendered_in_order [OF k f r] show ?thesis by simp
qed

text \<open>
  Claim C6. Modelled from the spec (the streaming display). When the stream raises after
  the fragments \<open>fs\<close>, the run is the run in which the stream closes after \<open>fs\<close>, followed
  by the error banner and nothing else: the updates of the display are the same, and what is
  rendered is still the fragments received, joined.
\<close>

theorem failed_stream_keeps_partial_output:
  assumes "secrets e = Inr key" and "key \<noteq> []"
    and "file_uploader e = Some (Inr D)" and "text_area e \<noteq> []"
    and "chat_completions_create e (create_request key D (text_area e))
           = Inr (Completion fs (Some x))"
  shows "fst (script e) =
           fst (script (e\<lparr>chat_completions_create := \<lambda>r. Inr (Completion fs None)\<rparr>))
           @ [Error (''An error occurred: '' @ str x) rotating_light]
     \<and> shown (fst (script e)) = map (\<lambda>n. concat (take n fs)) [1..<Suc (length fs)]
     \<and> rendered (fst (script e)) = concat fs"
proof -
  have t: "fst (script e) =
           fst (script (e\<lparr>chat_completions_create := \<lambda>r. Inr (Completion fs None)\<rparr>))
           @ [Error (''An error occurred: '' @ str x) rotating_light]"
    using assms by (simp add: script_defs)
  have s: "shown (fst (script e)) = shown (write_stream_from [] fs)"
    using assms by (simp add: script_defs reading silent)
  have r: "rendered (fst (script e)) = concat fs"
    unfolding rendered_def s using last_shown_write_stream_from [of "[]" fs] by simp
  have u: "shown (fst (script e)) = map (\<lambda>n. concat (take n fs)) [1..<Suc (length fs)]"
    unfolding s by (simp add: shown_write_stream_from del: upt_Suc)
  from t u r show ?thesis by (intro conjI)
qed

theorem failed_stream_keeps_partial_output_witness:
  "shown (fst (script broken_stream_env)) = [''The '', ''The sky '']
   \<and> rendered (fst (script broken_stream_env)) = ''The sky ''"
proof -
  have k: "secrets broken_stream_env = Inr ''sk-test''" "''sk-test'' \<noteq> []"
    by (simp_all add: example_envs)
  have f: "file_uploader broken_stream_env = Some (Inr ''The sky is blue.'')"
    "text_area broken_stream_env \<noteq> []"
    by (simp_all add: example_envs)
  have r: "chat_completions_create broken_stream_env
             (create_request ''sk-test'' ''The sky is blue.'' (text_area broken_stream_env))
           = Inr (Completion [''The '', ''sky ''] (Some (OtherException ''Connection error.'')))"
    by (simp add: example_envs)
  from failed_stream_keeps_partial_output [OF k f r, THEN conjunct2] show ?thesis by simp
qed

text \<open>
  Claim C7. Without a file no question input of the run is enabled. When a non-empty key is
  loaded the run has exactly one question input, and it is disabled exactly when there is
  no file, so enabled exactly when a file is present.
\<close>

theorem question_disabled_without_file:
  assumes "secrets e = Inr key"
  shows "(file_uploader e = None \<longrightarrow> False \<notin> set (question_disabled (fst (script e))))
     \<and> (key \<noteq> [] \<longrightarrow> question_disabled (fst (script e)) = [file_uploader e = None])"
  using assms by (auto simp add: script_defs reading silent split: sum.splits option.splits)

theorem question_disabled_without_file_witness:
  "question_disabled (fst (script no_file_env)) = [True]
   \<and> question_disabled (fst (script sky_env)) = [False]"
proof -
  have a: "secrets no_file_env = Inr ''sk-test''" and b: "secrets sky_env = Inr ''sk-test''"
    by (simp_all add: example_envs)
  from question_disabled_without_file [OF a] question_disabled_without_file [OF b]
  show ?thesis by (simp add: example_envs)
qed

text \<open>
  Claim C8. A run is a function of what it finds in that run alone. With a non-empty key,
  a document \<open>D\<close> and a non-empty question \<open>Q\<close>, a run opens exactly one request, the one
  for \<open>D\<close> and \<open>Q\<close>; two such runs in a row open it twice, whatever the service answered
  to the first.
\<close>

theorem resubmission_calls_again:
  assumes "secrets e1 = Inr key" and "file_uploader e1 = Some (Inr D)" and "text_area e1 = Q"
    and "secrets e2 = Inr key" and "file_uploader e2 = Some (Inr D)" and "text_area e2 = Q"
    and "key \<noteq> []" and "Q \<noteq> []"
  shows "creates (fst (script e1)) = [create_request key D Q]
     \<and> creates (session [e1, e2]) = [create_request key D Q, create_request key D Q]"
  using assms
  by (auto simp add: session_def script_defs reading silent split: sum.splits option.splits)

theorem resubmission_calls_again_witness:
  "creates (session [broken_stream_env, sky_env])
     = [create_request ''sk-test'' ''The sky is blue.'' ''What color is the sky?'',
        create_request ''sk-test'' ''The sky is blue.'' ''What color is the sky?'']"
proof -
  have a: "secrets broken_stream_env = Inr ''sk-test''"
    "file_uploader broken_stream_env = Some (Inr ''The sky is blue.'')"
    "text_area broken_stream_env = ''What color is the sky?''"
    by (simp_all add: example_envs)
  have b: "secrets sky_env = Inr ''sk-test''"
    "file_uploader sky_env = Some (Inr ''The sky is blue.'')"
    "text_area sky_env = ''What color is the sky?''"
    by (simp_all add: example_envs)
  have c: "''sk-test'' \<noteq> []" "''What color is the sky?'' \<noteq> []"
    by simp_all
  from resubmission_calls_again [OF a b c] show ?thesis by simp
qed

text \<open>
  Claim C9. When the key is in the store and its value is empty, the run shows the header
  and the informational prompt and finishes: it does not stop, shows no error banner, builds
  no client and opens no request.
\<close>

theorem empty_secret_informs:
  assumes "secrets e = Inr []"
  shows "script e =
           (header @ [Info ''Please add your OpenAI API key to your secrets file to continue.''
                        old_key], Finished)
     \<and> Stop \<notin> set (fst (script e)) \<and> errors (fst (script e)) = []
     \<and> (\<forall>k. OpenAI k \<notin> set (fst (script e))) \<and> creates (fst (script e)) = []"
  using assms by (simp add: script_def main_logic_def reading silent Stop_header OpenAI_header)

theorem empty_secret_informs_witness:
  "snd (script empty_secret_env) = Finished \<and> errors (fst (script empty_secret_env)) = []
   \<and> creates (fst (script empty_secret_env)) = []"
proof -
  have s: "secrets empty_secret_env = Inr []"
    by (simp add: example_envs)
  from empty_secret_informs [OF s] show ?thesis by (simp add: reading silent)
qed

text \<open>
  Claim C10. When decoding the uploaded file raises, the run opens no request; and with a
  non-empty key and a question it finishes with the one error banner of that exception.
\<close>

theorem decode_failure_opens_no_request:
  assumes "file_uploader e = Some (Inl x)"
  shows "creates (fst (script e)) = []
     \<and> (\<forall>key. secrets e = Inr key \<and> key \<noteq> [] \<and> text_area e \<noteq> [] \<longrightarrow>
           snd (script e) = Finished
           \<and> errors (fst (script e)) = [''An error occurred: '' @ str x])"
  using assms by (auto simp add: script_defs reading silent split: sum.splits option.splits)

theorem decode_failure_opens_no_request_witness:
  "creates (fst (script undecodable_env)) = []
   \<and> errors (fst (script undecodable_env)) = [''An error occurred: invalid start byte'']"
proof -
  have f: "file_uploader undecodable_env = Some (Inl (OtherException ''invalid start byte''))"
    by (simp add: example_envs)
  from decode_failure_opens_no_request [OF f] show ?thesis by (simp add: example_envs)
qed

end
